theory Spec2Isabelle
  imports Main
begin

section \<open>Python values used by both source files\<close>

text \<open>
  Exceptions are values. Only the exception classes that the two source files raise,
  catch or can meet at the places modelled here are listed; \<open>OtherError\<close> stands for any
  other exception an external dataset builder may raise. \<open>FileNotFoundError\<close> carries
  its \<open>filename\<close> attribute (\<open>None\<close> when the exception was built without one).
\<close>

datatype error =
    IndexError
  | FileNotFoundError "string option"
  | UnboundLocalError string
  | AssertionError string
  | RecursionError
  | AttributeError string
  | Exception string
  | OtherError string

text \<open>
  \<open>xs[i]\<close> on a Python list: a negative index counts from the end, and an index outside
  the list raises \<open>IndexError\<close>.
\<close>

definition py_index :: "'a list \<Rightarrow> int \<Rightarrow> error + 'a" where
  "py_index xs i =
     (let k = (if i < 0 then i + int (length xs) else i)
      in if k < 0 \<or> int (length xs) \<le> k then Inl IndexError else Inr (xs ! nat k))"

text \<open>
  \<open>s.split(sep)\<close> for a separator of one character: the pieces between the
  occurrences of the separator, in order; the result is never empty
  (\<open>"".split(">") == [""]\<close>).
\<close>

primrec str_split :: "char \<Rightarrow> string \<Rightarrow> string list" where
  "str_split sep [] = [[]]"
| "str_split sep (c # cs) =
     (if c = sep then [] # str_split sep cs
      else (case str_split sep cs of
              [] \<Rightarrow> [[c]]
            | w # ws \<Rightarrow> (c # w) # ws))"

text \<open>\<open>s.startswith(p)\<close>.\<close>

definition startswith :: "string \<Rightarrow> string \<Rightarrow> bool" where
  "startswith s p = (take (length p) s = p)"



section \<open>The file system and the file-open primitive\<close>

text \<open>
  A text file is the list of its lines, as iterating over the open file gives them
  (each line with its line terminator). The file system maps a path to the file at
  that path; opening a path that has no file raises \<open>FileNotFoundError\<close> with the path
  as its \<open>filename\<close>. Directories are not modelled.
\<close>

type_synonym filesystem = "string \<rightharpoonup> string list"

definition os_open :: "filesystem \<Rightarrow> string \<Rightarrow> error + string list" where
  "os_open fs path =
     (case fs path of
        None \<Rightarrow> Inl (FileNotFoundError (Some path))
      | Some content \<Rightarrow> Inr content)"

text \<open>
  Both source files call \<open>open\<close>, which Python resolves to the attribute \<open>open\<close> of the
  module \<open>builtins\<close> at the time of the call, and \<open>get_files\<close> assigns that attribute.
  So the attribute is part of the state: it holds either the interpreter's own
  function or a closure \<open>monkey_patch_open\<close> made by some call of \<open>get_files\<close> with its
  \<open>mock\<close> flag. \<open>builtins_saved_open\<close> is the attribute \<open>builtins._open\<close>, which does not
  exist (\<open>None\<close>) until \<open>get_files\<close> has assigned it.
\<close>

datatype opener = OriginalOpen | MonkeyPatchOpen bool

record builtins =
  builtins_open :: opener
  builtins_saved_open :: "opener option"

text \<open>
  What a call \<open>builtins._open(path)\<close> returns to a reader. A closure with
  \<open>mock = True\<close> hands out an empty temporary file; a closure with \<open>mock = False\<close>
  calls \<open>builtins._open\<close> again, which is itself, until Python gives up.
\<close>

definition call_saved_open :: "builtins \<Rightarrow> filesystem \<Rightarrow> string \<Rightarrow> error + string list" where
  "call_saved_open b fs path =
     (case builtins_saved_open b of
        None \<Rightarrow> Inl (AttributeError ''_open'')
      | Some OriginalOpen \<Rightarrow> os_open fs path
      | Some (MonkeyPatchOpen True) \<Rightarrow> Inr []
      | Some (MonkeyPatchOpen False) \<Rightarrow> Inl RecursionError)"

text \<open>What a call \<open>open(path)\<close> returns to a reader: the lines of the file it opened.\<close>

definition call_open :: "builtins \<Rightarrow> filesystem \<Rightarrow> string \<Rightarrow> error + string list" where
  "call_open b fs path =
     (case builtins_open b of
        OriginalOpen \<Rightarrow> os_open fs path
      | MonkeyPatchOpen True \<Rightarrow> Inr []
      | MonkeyPatchOpen False \<Rightarrow> call_saved_open b fs path)"

text \<open>
  \<open>with open(path, "w") as f: for line in lines: f.write(line)\<close>. The interpreter's
  own function creates or replaces the file; the temporary file of a mocking closure
  takes the lines and is thrown away.
\<close>

definition write_lines :: "builtins \<Rightarrow> filesystem \<Rightarrow> string \<Rightarrow> string list \<Rightarrow> error + filesystem" where
  "write_lines b fs path lines =
     (case builtins_open b of
        OriginalOpen \<Rightarrow> Inr (fs(path \<mapsto> lines))
      | MonkeyPatchOpen True \<Rightarrow> Inr fs
      | MonkeyPatchOpen False \<Rightarrow>
          (case builtins_saved_open b of
             None \<Rightarrow> Inl (AttributeError ''_open'')
           | Some OriginalOpen \<Rightarrow> Inr (fs(path \<mapsto> lines))
           | Some (MonkeyPatchOpen True) \<Rightarrow> Inr fs
           | Some (MonkeyPatchOpen False) \<Rightarrow> Inl RecursionError))"

text \<open>\<open>os.path.join(a, p)\<close> and \<open>os.path.basename(p)\<close> of \<open>posixpath\<close>.\<close>

definition os_path_join :: "string \<Rightarrow> string \<Rightarrow> string" where
  "os_path_join a p =
     (if startswith p ''/'' then p
      else if a = [] \<or> last a = CHR ''/'' then a @ p
      else a @ ''/'' @ p)"

definition os_path_basename :: "string \<Rightarrow> string" where
  "os_path_basename p = rev (takeWhile (\<lambda>c. c \<noteq> CHR ''/'') (rev p))"

section \<open>\<open>datasets/iwslt2017.py\<close>: the line-pair record extractor\<close>


text \<open>
  \<open>row.split(">")[1].split("<")[0]\<close>, the expression applied to the source row and
  then to the target row of a segment line.
\<close>

definition seg_text :: "string \<Rightarrow> error + string" where
  "seg_text row =
     (case py_index (str_split (CHR ''>'') row) 1 of
        Inl e \<Rightarrow> Inl e
      | Inr part1 \<Rightarrow> py_index (str_split (CHR ''<'') part1) 0)"



section \<open>\<open>src/nlp/commands/dummy_data.py\<close>: the dummy-data command\<close>

subsection \<open>\<open>slurp\<close>\<close>

text \<open>
  \<open>slurp(filename, n_first, n_last)\<close> reads the file twice: once to count its lines,
  once to keep the line at index \<open>i\<close> when \<open>i <= n_first or i >= total_lines - n_last\<close>.
  The two counts come from \<open>argparse\<close> with \<open>type=int\<close>, so they are integers of
  either sign.
\<close>

definition keep_line :: "int \<Rightarrow> int \<Rightarrow> int \<Rightarrow> nat \<Rightarrow> bool" where
  "keep_line n_first n_last total_lines i =
     (int i \<le> n_first \<or> total_lines - n_last \<le> int i)"

definition slurp_lines :: "string list \<Rightarrow> int \<Rightarrow> int \<Rightarrow> string list" where
  "slurp_lines f n_first n_last =
     (let total_lines = int (length f)
      in map snd (filter (\<lambda>(i, line). keep_line n_first n_last total_lines i) (enumerate 0 f)))"

definition slurp :: "builtins \<Rightarrow> filesystem \<Rightarrow> string \<Rightarrow> int \<Rightarrow> int \<Rightarrow> error + string list" where
  "slurp b fs filename n_first n_last =
     (case call_open b fs filename of
        Inl e \<Rightarrow> Inl e
      | Inr f \<Rightarrow> Inr (slurp_lines f n_first n_last))"

subsection \<open>\<open>DummyDataCommand.__init__\<close>\<close>

record command =
  self_path_to_dataset :: string
  self_requires_manual :: bool
  self_dataset_name :: string
  self_auto_zip :: bool
  self_n_first :: int
  self_n_last :: int

text \<open>
  The constructor reads \<open>path_to_dataset.split("/")[-2]\<close> before its two assertions.
  An \<open>int\<close> is true in a condition when it is not zero.
\<close>

definition DummyDataCommand_init ::
  "string \<Rightarrow> bool \<Rightarrow> bool \<Rightarrow> int \<Rightarrow> int \<Rightarrow> error + command" where
  "DummyDataCommand_init path_to_dataset requires_manual auto_zip n_first n_last =
     (case py_index (str_split (CHR ''/'') path_to_dataset) (- 2) of
        Inl e \<Rightarrow> Inl e
      | Inr dataset_name \<Rightarrow>
          (let self = \<lparr>self_path_to_dataset = path_to_dataset,
                       self_requires_manual = requires_manual,
                       self_dataset_name = dataset_name,
                       self_auto_zip = auto_zip,
                       self_n_first = n_first,
                       self_n_last = n_last\<rparr>
           in if auto_zip then
                if n_first \<noteq> 0 \<or> n_last \<noteq> 0 then Inr self
                else Inl (AssertionError
                  ''When using `auto-zip` you need to set at least `--n-first` or `--n-last`'')
              else
                if n_first = 0 \<and> n_last = 0 then Inr self
                else Inl (AssertionError
                  ''When using `--n-first` or `--n-last` you need to set `--auto-zip`'')))"

subsection \<open>The dataset builder and the download managers\<close>

text \<open>
  The dataset builder is an external collaborator. What the command sees of a call of
  \<open>_split_generators\<close> or \<open>_generate_examples\<close> is a computation that opens files by
  path, goes on according to what each \<open>open\<close> gave it (the lines of the file, or an
  exception, which it may catch or let through), and ends by returning or raising.
  The records a generator yields are dropped by \<open>get_files\<close>, so the computation of
  \<open>_generate_examples\<close> returns nothing. The builder reads files only; what a download
  manager fetched is already in the file system.
\<close>

datatype 'a prog =
    Return 'a
  | Raise error
  | Open string "error + string list \<Rightarrow> 'a prog"

record split_generator =
  split_name :: string
  gen_kwargs :: "(string \<times> string) list"

record config =
  config_name :: string
  config_version :: string

text \<open>
  \<open>DownloadManager\<close> and \<open>MockDownloadManager\<close> are classes of \<open>nlp.utils\<close>, which is not
  among the sources. A manager is the value the command builds: the real one from the
  dataset name, the mock one from the dataset name, the config and the version; the
  last two arguments of \<open>MockDownloadManager\<close> are the values of its attributes
  \<open>dummy_data_folder\<close> and \<open>dummy_file_name\<close>, which that class computes.
\<close>

datatype dl_manager =
    DownloadManager string
  | MockDownloadManager string "config option" string string string

record builder =
  split_generators :: "dl_manager \<Rightarrow> split_generator list prog"
  generate_examples :: "(string \<times> string) list \<Rightarrow> unit prog"

text \<open>
  Running such a computation in a state of \<open>builtins\<close>: each \<open>open\<close> goes through
  \<open>builtins.open\<close>, and a closure \<open>monkey_patch_open\<close> first appends the path to its
  list \<open>files\<close>.
\<close>

primrec run_prog :: "builtins \<Rightarrow> filesystem \<Rightarrow> 'a prog \<Rightarrow> string list \<Rightarrow> string list \<times> (error + 'a)" where
  "run_prog b fs (Return x) = (\<lambda>files. (files, Inr x))"
| "run_prog b fs (Raise e) = (\<lambda>files. (files, Inl e))"
| "run_prog b fs (Open path k) = (\<lambda>files.
     run_prog b fs (k (call_open b fs path))
       (case builtins_open b of
          OriginalOpen \<Rightarrow> files
        | MonkeyPatchOpen mock \<Rightarrow> files @ [path]))"

subsection \<open>\<open>get_files\<close> and \<open>get_real_files\<close>\<close>

text \<open>
  The loop of \<open>get_files\<close> over the splits: each generator is run to its end; an
  exception leaves the loop.
\<close>

fun drive_splits ::
  "builtins \<Rightarrow> filesystem \<Rightarrow> builder \<Rightarrow> split_generator list \<Rightarrow> string list \<Rightarrow> string list \<times> error option" where
  "drive_splits b fs dataset_builder [] files = (files, None)"
| "drive_splits b fs dataset_builder (split # generator_splits) files =
     (case run_prog b fs (generate_examples dataset_builder (gen_kwargs split)) files of
        (files1, Inl e) \<Rightarrow> (files1, Some e)
      | (files1, Inr u) \<Rightarrow> drive_splits b fs dataset_builder generator_splits files1)"

text \<open>
  \<open>get_files(self, dataset_builder, dl_manager, mock)\<close>. The result is the state of
  \<open>builtins\<close> when the call ends, and the list returned or the exception raised. The
  function has no \<open>try\<close>: an exception of the builder leaves \<open>get_files\<close> at once, in
  the state reached.
\<close>

definition get_files ::
  "builtins \<Rightarrow> filesystem \<Rightarrow> builder \<Rightarrow> dl_manager \<Rightarrow> bool \<Rightarrow> builtins \<times> (error + string list)" where
  "get_files b fs dataset_builder dl_manager mock =
     (let b1 = b\<lparr>builtins_saved_open := Some (builtins_open b)\<rparr>;
          b2 = b1\<lparr>builtins_open := MonkeyPatchOpen mock\<rparr>
      in case run_prog b2 fs (split_generators dataset_builder dl_manager) [] of
           (files1, Inl e) \<Rightarrow> (b2, Inl e)
         | (files1, Inr generator_splits) \<Rightarrow>
             (case drive_splits b2 fs dataset_builder generator_splits files1 of
                (files2, Some e) \<Rightarrow> (b2, Inl e)
              | (files2, None) \<Rightarrow>
                  (case builtins_saved_open b2 of
                     None \<Rightarrow> (b2, Inl (AttributeError ''_open''))
                   | Some saved \<Rightarrow> (b2\<lparr>builtins_open := saved\<rparr>, Inr files2))))"

text \<open>\<open>get_real_files(self, dataset_builder)\<close>.\<close>

definition get_real_files ::
  "command \<Rightarrow> builtins \<Rightarrow> filesystem \<Rightarrow> builder \<Rightarrow> builtins \<times> (error + string list)" where
  "get_real_files self b fs dataset_builder =
     get_files b fs dataset_builder (DownloadManager (self_dataset_name self)) False"

subsection \<open>\<open>auto_zip\<close>\<close>

text \<open>
  The first loop of \<open>auto_zip\<close>: for each expected file, the first real file with the
  same base name is looked up (an empty selection makes \<open>[0]\<close> raise \<open>IndexError\<close>,
  which is caught and replaced by an \<open>Exception\<close> that names the expected file), trimmed
  by \<open>slurp\<close>, and written at the expected path under the dummy-data folder.
  \<open>os.makedirs\<close> has no effect here, since directories are not modelled.
\<close>

definition could_not_find :: "string \<Rightarrow> string" where
  "could_not_find file_to_create =
     ''We could not find the file '' @ file_to_create @ '' in the real downladed files''"

fun auto_zip_files ::
  "command \<Rightarrow> builtins \<Rightarrow> string list \<Rightarrow> string \<Rightarrow> string list \<Rightarrow> filesystem \<Rightarrow> filesystem \<times> error option" where
  "auto_zip_files self b real_files folder [] fs = (fs, None)"
| "auto_zip_files self b real_files folder (file_to_create # files_to_create) fs =
     (case py_index
             (filter (\<lambda>filename. os_path_basename filename = os_path_basename file_to_create)
                real_files) 0 of
        Inl e \<Rightarrow> (fs, Some (if e = IndexError then Exception (could_not_find file_to_create) else e))
      | Inr real_file \<Rightarrow>
          (case slurp b fs real_file (self_n_first self) (self_n_last self) of
             Inl e \<Rightarrow> (fs, Some e)
           | Inr lines \<Rightarrow>
               (case write_lines b fs (os_path_join folder file_to_create) lines of
                  Inl e \<Rightarrow> (fs, Some e)
                | Inr fs1 \<Rightarrow> auto_zip_files self b real_files folder files_to_create fs1)))"

text \<open>
  \<open>auto_zip(self, config, version, dataset_builder, dummy_data_folder, files_to_create)\<close>,
  from its first line to the end of that loop (lines 130 to 151). The result is the
  state of \<open>builtins\<close>, the file system, and the exception raised, if one was; \<open>None\<close>
  says that the loop has ended and the source goes on to build the archive
  \<open>dummy_data.zip\<close> and to clear the folder, two steps on directories and archives that
  lie outside this model.
\<close>

definition auto_zip ::
  "command \<Rightarrow> builtins \<Rightarrow> filesystem \<Rightarrow> builder \<Rightarrow> string \<Rightarrow> string list
     \<Rightarrow> builtins \<times> filesystem \<times> error option" where
  "auto_zip self b fs dataset_builder folder files_to_create =
     (case get_real_files self b fs dataset_builder of
        (b1, Inl e) \<Rightarrow> (b1, fs, Some e)
      | (b1, Inr real_files) \<Rightarrow>
          (case auto_zip_files self b1 real_files folder files_to_create fs of
             (fs1, r) \<Rightarrow> (b1, fs1, r)))"

subsection \<open>\<open>get_expected_files\<close>\<close>

text \<open>
  What the command prints. The text of the instructions is kept as the list of the
  pieces that the source appends to \<open>dummy_data_guidance_print\<close>, each with the values
  it formats in; the comment of each constructor gives the source lines it stands for.
\<close>

datatype fragment =
    Header "string option" string string  \<comment> \<open>lines 198 to 204: config name, dataset name, folder\<close>
  | GlobHint string  \<comment> \<open>line 206: dummy file name\<close>
  | SingleFile string string string  \<comment> \<open>line 215: the file, folder, split names\<close>
  | ManyFiles string string  \<comment> \<open>line 219: files string, folder\<close>
  | EachSplit string  \<comment> \<open>line 221: split names\<close>
  | MultipleOpen string  \<comment> \<open>line 223: files string\<close>
  | ZipOneFile string  \<comment> \<open>lines 226 to 232: dummy file name\<close>
  | ZipFolder string  \<comment> \<open>lines 234 to 238: dummy file name\<close>
  | Footer string string  \<comment> \<open>lines 240 to 244: dummy file name, folder\<close>

datatype message =
    OpensFilesWarning string "config option" "string option"
      \<comment> \<open>lines 187 to 189: dataset name, config, \<open>e.filename\<close>\<close>
  | Guidance "fragment list"  \<comment> \<open>line 246\<close>

text \<open>\<open>sep.join(xs)\<close>.\<close>

fun str_join :: "string \<Rightarrow> string list \<Rightarrow> string" where
  "str_join sep [] = []"
| "str_join sep [x] = x"
| "str_join sep (x # y # ys) = x @ sep @ str_join sep (y # ys)"

text \<open>
  The loop over \<open>generator_splits\<close> (lines 194 to 206): it collects the split names and
  assigns \<open>dummy_data_guidance_print\<close> anew in every round, so that this variable is
  bound after the loop only if there was a split.
\<close>

fun collect_splits ::
  "fragment list \<Rightarrow> split_generator list \<Rightarrow> string list \<times> fragment list option
     \<Rightarrow> string list \<times> fragment list option" where
  "collect_splits start [] (split_names, guidance) = (split_names, guidance)"
| "collect_splits start (split # generator_splits) (split_names, guidance) =
     collect_splits start generator_splits (split_names @ [split_name split], Some start)"

text \<open>The pieces appended after the loop when the instructions are printed (lines 212 to 244).\<close>

definition guidance_rest :: "string list \<Rightarrow> string \<Rightarrow> string \<Rightarrow> string \<Rightarrow> fragment list" where
  "guidance_rest files_to_create file_name folder split_names =
     (let single = (length files_to_create = 1 \<and> hd files_to_create = file_name)
      in (if length files_to_create > 0 then
            (if single then [SingleFile (hd files_to_create) folder split_names, MultipleOpen file_name]
             else [ManyFiles (str_join '', '' files_to_create) folder, EachSplit split_names,
                   MultipleOpen (str_join '', '' files_to_create)])
          else [])
         @ (if single then [ZipOneFile file_name] else [ZipFolder file_name])
         @ [Footer file_name folder])"

text \<open>
  \<open>get_expected_files(self, config, version, dataset_builder, print_dummy_instructions)\<close>.
  The parameters \<open>mock_folder\<close> and \<open>mock_file_name\<close> are the two attributes of the mock
  manager that the function builds. The local variable \<open>generator_splits\<close> is assigned
  by the call inside \<open>try\<close> only: after the \<open>except\<close> branch it is unbound (\<open>None\<close> below),
  and reading an unbound local variable raises \<open>UnboundLocalError\<close>. The result is the
  state of \<open>builtins\<close>, what was printed, and the pair returned or the exception raised.
\<close>

definition get_expected_files ::
  "command \<Rightarrow> builtins \<Rightarrow> filesystem \<Rightarrow> config option \<Rightarrow> string \<Rightarrow> builder \<Rightarrow> string \<Rightarrow> string \<Rightarrow> bool
     \<Rightarrow> builtins \<times> message list \<times> (error + string \<times> string list)" where
  "get_expected_files self b fs config version dataset_builder mock_folder mock_file_name
       print_dummy_instructions =
     (let mock_dl_manager =
            MockDownloadManager (self_dataset_name self) config version mock_folder mock_file_name;
          dummy_data_folder = os_path_join (self_path_to_dataset self) mock_folder;
          (printed, tried) =
            (case run_prog b fs (split_generators dataset_builder mock_dl_manager) [] of
               (opened, Inr generator_splits) \<Rightarrow> ([], Inr (Some generator_splits))
             | (opened, Inl (FileNotFoundError filename)) \<Rightarrow>
                 ([OpensFilesWarning (self_dataset_name self) config filename], Inr None)
             | (opened, Inl e) \<Rightarrow> ([], Inl e))
      in case tried of
           Inl e \<Rightarrow> (b, printed, Inl e)
         | Inr None \<Rightarrow> (b, printed, Inl (UnboundLocalError ''generator_splits''))
         | Inr (Some generator_splits) \<Rightarrow>
             (let dummy_file_name = mock_file_name;
                  start = [Header (map_option config_name config) (self_dataset_name self)
                             dummy_data_folder,
                           GlobHint dummy_file_name];
                  (split_names, guidance) = collect_splits start generator_splits ([], None)
              in case get_files b fs dataset_builder mock_dl_manager True of
                   (b1, Inl e) \<Rightarrow> (b1, printed, Inl e)
                 | (b1, Inr files_to_create) \<Rightarrow>
                     (if print_dummy_instructions then
                        (case guidance of
                           None \<Rightarrow> (b1, printed, Inl (UnboundLocalError ''dummy_data_guidance_print''))
                         | Some g \<Rightarrow>
                             (b1,
                              printed @ [Guidance (g @ guidance_rest files_to_create dummy_file_name
                                                        dummy_data_folder (str_join '', '' split_names))],
                              Inr (dummy_data_folder, files_to_create)))
                      else (b1, printed, Inr (dummy_data_folder, files_to_create)))))"

subsection \<open>Inputs of the examples\<close>

text \<open>The state of \<open>builtins\<close> in a fresh interpreter: \<open>open\<close> is its own, \<open>_open\<close> does not exist.\<close>

definition unpatched :: builtins where
  "unpatched = \<lparr>builtins_open = OriginalOpen, builtins_saved_open = None\<rparr>"






text \<open>
  The command made by \<open>DummyDataCommand("datasets/iwslt2017/", False, True, 1, 0)\<close>; a
  builder with one split, whose generator opens the file named by its keyword argument
  and lets an exception of \<open>open\<close> through; a builder whose \<open>_split_generators\<close> opens a
  file itself; and a file system that holds the real file of the first builder.
\<close>

definition example_command :: command where
  "example_command =
     \<lparr>self_path_to_dataset = ''datasets/iwslt2017/'', self_requires_manual = False,
      self_dataset_name = ''iwslt2017'', self_auto_zip = True, self_n_first = 1, self_n_last = 0\<rparr>"

definition example_builder :: builder where
  "example_builder =
     \<lparr>split_generators = (\<lambda>dl_manager.
        Return [\<lparr>split_name = ''train'',
                 gen_kwargs = [(''filepath'',
                   (case dl_manager of
                      DownloadManager name \<Rightarrow> ''cache/train.txt''
                    | MockDownloadManager name config version folder file_name \<Rightarrow>
                        os_path_join file_name ''train.txt''))]\<rparr>]),
      generate_examples = (\<lambda>kwargs.
        (case map_of kwargs ''filepath'' of
           None \<Rightarrow> Raise (OtherError ''TypeError'')
         | Some filepath \<Rightarrow>
             Open filepath (\<lambda>opened. case opened of Inl e \<Rightarrow> Raise e | Inr lines \<Rightarrow> Return ())))\<rparr>"

definition probing_builder :: builder where
  "probing_builder =
     \<lparr>split_generators = (\<lambda>dl_manager.
        Open ''dummy_data/splits.txt'' (\<lambda>opened.
          case opened of
            Inl e \<Rightarrow> Raise e
          | Inr lines \<Rightarrow> Return (map (\<lambda>line. \<lparr>split_name = line, gen_kwargs = []\<rparr>) lines))),
      generate_examples = (\<lambda>kwargs. Return ())\<rparr>"


section \<open>Evaluation of the examples\<close>

text \<open>The definitions that a call of \<open>open\<close>, and a run of the extractor, unfold to.\<close>

lemmas builtins_defs = call_open_def call_saved_open_def os_open_def unpatched_def


section \<open>Properties of the string operations\<close>

lemma str_split_not_Nil: "str_split sep s \<noteq> []"
  by (induction s) (auto split: list.splits)

lemma hd_str_split: "hd (str_split sep s) = takeWhile (\<lambda>c. c \<noteq> sep) s"
  by (induction s) (auto split: list.splits simp: str_split_not_Nil)

lemma str_split_no_sep: "sep \<notin> set s \<Longrightarrow> str_split sep s = [s]"
  by (induction s) auto

lemma str_split_at_first_sep:
  "sep \<notin> set a \<Longrightarrow> str_split sep (a @ sep # r) = a # str_split sep r"
  by (induction a) auto

lemma py_index_0: "xs \<noteq> [] \<Longrightarrow> py_index xs 0 = Inr (hd xs)"
  by (cases xs) (simp_all add: py_index_def)

lemma py_index_1_Cons: "xs \<noteq> [] \<Longrightarrow> py_index (x # xs) 1 = Inr (hd xs)"
  by (cases xs) (simp_all add: py_index_def)

lemma py_index_1_single: "py_index [x] 1 = Inl IndexError"
  by (simp add: py_index_def)

lemma takeWhile_twice:
  "takeWhile P (takeWhile Q xs) = takeWhile (\<lambda>x. P x \<and> Q x) xs"
  by (induction xs) auto

lemma seg_text_no_gt: "CHR ''>'' \<notin> set row \<Longrightarrow> seg_text row = Inl IndexError"
  by (simp add: seg_text_def str_split_no_sep py_index_1_single)

lemma seg_text_gt:
  assumes "CHR ''>'' \<notin> set a"
  shows "seg_text (a @ CHR ''>'' # r) = Inr (takeWhile (\<lambda>c. c \<noteq> CHR ''<'' \<and> c \<noteq> CHR ''>'') r)"
  using assms
  by (simp add: seg_text_def str_split_at_first_sep py_index_1_Cons py_index_0
      str_split_not_Nil hd_str_split takeWhile_twice)

lemma seg_text_error_iff: "(\<exists>e. seg_text row = Inl e) \<longleftrightarrow> CHR ''>'' \<notin> set row"
proof
  assume "\<exists>e. seg_text row = Inl e"
  show "CHR ''>'' \<notin> set row"
  proof
    assume "CHR ''>'' \<in> set row"
    then obtain a r where "row = a @ CHR ''>'' # r" "CHR ''>'' \<notin> set a"
      by (meson split_list_first)
    then have "\<exists>t. seg_text row = Inr t" by (simp add: seg_text_gt)
    with \<open>\<exists>e. seg_text row = Inl e\<close> show False by auto
  qed
next
  assume "CHR ''>'' \<notin> set row"
  then show "\<exists>e. seg_text row = Inl e" by (simp add: seg_text_no_gt)
qed


section \<open>Properties of the record extractor\<close>













section \<open>Properties of \<open>slurp\<close>\<close>

lemma filter_enumerate_take_drop:
  "map snd (filter (\<lambda>(i, x). i \<le> a \<or> b \<le> i) (enumerate k f)) =
     take (Suc a - k) f @ drop (max (Suc a) b - k) f"
proof (induction f arbitrary: k)
  case Nil
  show ?case by simp
next
  case (Cons x xs)
  show ?case using Cons.IH [of "Suc k"]
    by (auto simp: take_Cons' drop_Cons' max_def Suc_diff_le)
qed

lemma slurp_lines_take_drop:
  assumes "0 \<le> n_first"
  shows "slurp_lines f n_first n_last =
     take (Suc (nat n_first)) f @ drop (max (Suc (nat n_first)) (nat (int (length f) - n_last))) f"
proof -
  have "(\<lambda>(i::nat, line::string). keep_line n_first n_last (int (length f)) i) =
        (\<lambda>(i, line). i \<le> nat n_first \<or> nat (int (length f) - n_last) \<le> i)"
    using assms by (auto simp: keep_line_def fun_eq_iff)
  then show ?thesis
    using filter_enumerate_take_drop [of "nat n_first" "nat (int (length f) - n_last)" 0 f]
    by (simp add: slurp_lines_def)
qed

lemma zip_upt_nth: "zip [0..<length xs] xs = map (\<lambda>i. (i, xs ! i)) [0..<length xs]"
  by (rule nth_equalityI) simp_all

lemma slurp_lines_indices:
  "slurp_lines f n_first n_last =
     map (\<lambda>i. f ! i) (filter (\<lambda>i. int i \<le> n_first \<or> int (length f) - n_last \<le> int i) [0..<length f])"
  by (simp add: slurp_lines_def enumerate_eq_zip zip_upt_nth filter_map comp_def keep_line_def)

lemma slurp_opened:
  "call_open b fs filename = Inr f \<Longrightarrow>
   slurp b fs filename n_first n_last = Inr (slurp_lines f n_first n_last)"
  by (simp add: slurp_def)

text \<open>
  Claim C3 says that \<open>slurp\<close> retains exactly the first \<open>N\<close> lines and the last \<open>M\<close> lines
  of the file, as the help text of \<open>--n-first\<close> does (``keeping the first n lines''). The
  source tests \<open>i <= n_first\<close>: of a file of three lines, with \<open>n_first = 1\<close> and
  \<open>n_last = 0\<close>, it keeps the first two lines, not the first one.
\<close>

theorem slurp_keeps_one_line_more:
  "slurp unpatched [''real.txt'' \<mapsto> [''a\<newline>'', ''b\<newline>'', ''c\<newline>'']] ''real.txt'' 1 0
     = Inr [''a\<newline>'', ''b\<newline>'']"
  by (simp add: slurp_def call_open_def os_open_def unpatched_def slurp_lines_def keep_line_def
      enumerate_eq_zip)

text \<open>
  Claim C5: of a file of ten lines, with \<open>n_first = 2\<close> and \<open>n_last = 1\<close>, \<open>slurp\<close> retains
  exactly the lines at the indices 0, 1, 2 and 9, which are the indices \<open>i\<close> with
  \<open>i <= n_first or i >= total - n_last\<close>, in the order of the file.
\<close>

theorem slurp_ten_lines:
  assumes "call_open b fs filename = Inr f" and "length f = 10"
  shows "slurp b fs filename 2 1 = Inr [f ! 0, f ! 1, f ! 2, f ! 9]
       \<and> slurp b fs filename 2 1 =
           Inr (map (\<lambda>i. f ! i)
                  (filter (\<lambda>i. int i \<le> 2 \<or> int (length f) - 1 \<le> int i) [0..<length f]))"
proof -
  have "slurp_lines f 2 1 = [f ! 0, f ! 1, f ! 2, f ! 9]"
    using assms(2)
    by (simp add: slurp_lines_indices upt_rec [of _ "numeral _"] upt_rec [of 0] eval_nat_numeral)
  moreover have "slurp_lines f 2 1 =
      map (\<lambda>i. f ! i) (filter (\<lambda>i. int i \<le> 2 \<or> int (length f) - 1 \<le> int i) [0..<length f])"
    by (rule slurp_lines_indices)
  ultimately show ?thesis
    using assms(1) by (simp add: slurp_opened)
qed

theorem slurp_ten_lines_witness:
  "slurp unpatched
     [''real.txt'' \<mapsto> [''l0'', ''l1'', ''l2'', ''l3'', ''l4'', ''l5'', ''l6'', ''l7'', ''l8'', ''l9'']]
     ''real.txt'' 2 1 = Inr [''l0'', ''l1'', ''l2'', ''l9'']"
  using slurp_ten_lines [of unpatched
     "[''real.txt'' \<mapsto> [''l0'', ''l1'', ''l2'', ''l3'', ''l4'', ''l5'', ''l6'', ''l7'', ''l8'', ''l9'']]"
     "''real.txt''" "[''l0'', ''l1'', ''l2'', ''l3'', ''l4'', ''l5'', ''l6'', ''l7'', ''l8'', ''l9'']"]
  by (simp add: call_open_def os_open_def unpatched_def)

text \<open>
  Claim C9: for counts that are not negative, \<open>slurp\<close> keeps the first \<open>n_first + 1\<close>
  lines and the last \<open>n_last\<close> lines (each line once where the two ranges meet). So the
  first line of a file that is not empty is always retained, also with \<open>n_first = 0\<close>,
  while \<open>n_last = 0\<close> retains no line of the tail.
\<close>

theorem slurp_head_tail_asymmetry:
  assumes "call_open b fs filename = Inr f" and "0 \<le> n_first" and "0 \<le> n_last"
  shows "slurp b fs filename n_first n_last =
           Inr (take (nat n_first + 1) f @ drop (max (nat n_first + 1) (length f - nat n_last)) f)
       \<and> (f \<noteq> [] \<longrightarrow> (\<exists>ls. slurp b fs filename n_first n_last = Inr (f ! 0 # ls)))
       \<and> slurp b fs filename n_first 0 = Inr (take (nat n_first + 1) f)
       \<and> slurp b fs filename 0 n_last = Inr (take 1 f @ drop (max 1 (length f - nat n_last)) f)
       \<and> slurp b fs filename 0 0 = Inr (take 1 f)"
proof -
  have eq: "nat (int (length f) - n_last) = length f - nat n_last"
    using assms(3) by simp
  have general: "slurp_lines f n_first n_last =
      take (nat n_first + 1) f @ drop (max (nat n_first + 1) (length f - nat n_last)) f"
    using slurp_lines_take_drop [OF assms(2), of f n_last] by (simp add: eq)
  have first: "\<exists>ls. slurp_lines f n_first n_last = f ! 0 # ls" if "f \<noteq> []"
  proof -
    from that obtain x xs where f: "f = x # xs" by (cases f) auto
    show ?thesis unfolding general by (simp add: f)
  qed
  have no_tail: "slurp_lines f n_first 0 = take (nat n_first + 1) f"
    using slurp_lines_take_drop [OF assms(2), of f 0] by simp
  have zero_head: "slurp_lines f 0 n_last = take 1 f @ drop (max 1 (length f - nat n_last)) f"
    using slurp_lines_take_drop [of 0 f n_last] by (simp add: eq)
  have zero: "slurp_lines f 0 0 = take 1 f"
    using slurp_lines_take_drop [of 0 f 0] by simp
  show ?thesis
    using assms(1) general first no_tail zero_head zero by (simp add: slurp_opened)
qed

theorem slurp_head_tail_asymmetry_witness:
  "slurp unpatched [''real.txt'' \<mapsto> [''a'', ''b'', ''c'', ''d'']] ''real.txt'' 0 1 = Inr [''a'', ''d'']
   \<and> slurp unpatched [''real.txt'' \<mapsto> [''a'', ''b'', ''c'', ''d'']] ''real.txt'' 0 0 = Inr [''a'']"
  using slurp_head_tail_asymmetry [of unpatched "[''real.txt'' \<mapsto> [''a'', ''b'', ''c'', ''d'']]"
      "''real.txt''" "[''a'', ''b'', ''c'', ''d'']" 0 1]
  by (simp add: call_open_def os_open_def unpatched_def)

section \<open>Properties of the constructor\<close>

text \<open>
  Claim C10: the constructor takes as dataset name the last but one of the pieces of
  the path between \<open>/\<close>; for a path without \<open>/\<close> it fails with \<open>IndexError\<close> whatever the
  other arguments are, also those that one of the two assertions would reject, since
  the name is read before the assertions.
\<close>

theorem init_dataset_name:
  "(CHR ''/'' \<notin> set path_to_dataset \<longrightarrow>
      DummyDataCommand_init path_to_dataset requires_manual auto_zip_flag n_first n_last = Inl IndexError)
   \<and> (DummyDataCommand_init path_to_dataset requires_manual auto_zip_flag n_first n_last = Inr self \<longrightarrow>
        2 \<le> length (str_split (CHR ''/'') path_to_dataset)
        \<and> self_dataset_name self =
            str_split (CHR ''/'') path_to_dataset ! (length (str_split (CHR ''/'') path_to_dataset) - 2))"
proof -
  let ?parts = "str_split (CHR ''/'') path_to_dataset"
  have "py_index ?parts (- 2) = Inl IndexError" if "CHR ''/'' \<notin> set path_to_dataset"
    using that by (simp add: str_split_no_sep py_index_def)
  then have A: "CHR ''/'' \<notin> set path_to_dataset \<longrightarrow>
      DummyDataCommand_init path_to_dataset requires_manual auto_zip_flag n_first n_last = Inl IndexError"
    by (simp add: DummyDataCommand_init_def)
  have B: "2 \<le> length ?parts \<and> self_dataset_name self = ?parts ! (length ?parts - 2)"
    if "DummyDataCommand_init path_to_dataset requires_manual auto_zip_flag n_first n_last = Inr self"
  proof -
    from that obtain name where name: "py_index ?parts (- 2) = Inr name"
      and self: "self_dataset_name self = name"
      by (auto simp: DummyDataCommand_init_def Let_def split: sum.splits if_splits)
    from name have "2 \<le> length ?parts" "name = ?parts ! (length ?parts - 2)"
      by (auto simp: py_index_def Let_def nat_diff_distrib' split: if_splits)
    with self show ?thesis by simp
  qed
  show ?thesis using A B by blast
qed

theorem init_dataset_name_witness:
  "DummyDataCommand_init ''iwslt2017'' False True 0 0 = Inl IndexError
   \<and> (\<exists>self. DummyDataCommand_init ''datasets/iwslt2017/'' False True 1 0 = Inr self
          \<and> self_dataset_name self = ''iwslt2017'')"
proof -
  have "DummyDataCommand_init ''iwslt2017'' False True 0 0 = Inl IndexError"
    using init_dataset_name [of "''iwslt2017''" False True 0 0] by simp
  moreover have "DummyDataCommand_init ''datasets/iwslt2017/'' False True 1 0 = Inr example_command"
    by (simp add: DummyDataCommand_init_def py_index_def example_command_def)
  moreover have "self_dataset_name example_command = ''iwslt2017''"
    using init_dataset_name [of "''datasets/iwslt2017/''" False True 1 0 example_command] calculation(2)
    by simp
  ultimately show ?thesis by blast
qed

section \<open>Properties of \<open>get_files\<close>\<close>


lemma get_files_raised:
  assumes "get_files b fs dataset_builder dl_manager mock = (b1, Inl e)"
  shows "builtins_open b1 = MonkeyPatchOpen mock"
  using assms
  by (auto simp: get_files_def Let_def split: prod.splits sum.splits option.splits)

text \<open>
  Claim C1 says that \<open>get_files\<close> restores the original \<open>open\<close> also when the split
  generation or the example generation raises. In real mode and with no file in the
  file system, the builder that opens a file in \<open>_split_generators\<close> and the builder
  that opens one in \<open>_generate_examples\<close> both raise \<open>FileNotFoundError\<close>, and both
  calls of \<open>get_files\<close> end with \<open>builtins.open\<close> still patched.
\<close>

theorem get_files_leaves_open_patched:
  "get_files unpatched Map.empty probing_builder (DownloadManager ''iwslt2017'') False =
     (\<lparr>builtins_open = MonkeyPatchOpen False, builtins_saved_open = Some OriginalOpen\<rparr>,
      Inl (FileNotFoundError (Some ''dummy_data/splits.txt'')))
   \<and> get_files unpatched Map.empty example_builder (DownloadManager ''iwslt2017'') False =
     (\<lparr>builtins_open = MonkeyPatchOpen False, builtins_saved_open = Some OriginalOpen\<rparr>,
      Inl (FileNotFoundError (Some ''cache/train.txt'')))"
  by (simp add: get_files_def builtins_defs example_builder_def probing_builder_def)

section \<open>Properties of \<open>get_expected_files\<close>\<close>

text \<open>
  Whenever the split generation probed with the mock manager raises
  \<open>FileNotFoundError\<close>, the warning is printed and \<open>get_expected_files\<close> then raises
  \<open>UnboundLocalError\<close> at the loop over \<open>generator_splits\<close>.
\<close>

lemma get_expected_files_after_except:
  assumes "snd (run_prog b fs (split_generators dataset_builder
              (MockDownloadManager (self_dataset_name self) config version mock_folder mock_file_name)) [])
           = Inl (FileNotFoundError filename)"
  shows "get_expected_files self b fs config version dataset_builder mock_folder mock_file_name
           print_dummy_instructions =
         (b, [OpensFilesWarning (self_dataset_name self) config filename],
          Inl (UnboundLocalError ''generator_splits''))"
proof -
  obtain opened where "run_prog b fs (split_generators dataset_builder
      (MockDownloadManager (self_dataset_name self) config version mock_folder mock_file_name)) []
    = (opened, Inl (FileNotFoundError filename))"
    using assms by (metis prod.collapse)
  then show ?thesis
    by (simp add: get_expected_files_def Let_def)
qed

text \<open>
  Claim C2 says that after such a \<open>FileNotFoundError\<close> the procedure goes on to its end
  with an incomplete list of splits. For the builder that opens a file in
  \<open>_split_generators\<close> and a file system without that file, the exception is caught
  and the warning printed, and the call ends with \<open>UnboundLocalError\<close>: it returns no
  folder and no list of files.
\<close>

theorem get_expected_files_fails_after_warning:
  "get_expected_files example_command unpatched Map.empty None ''1.0.0'' probing_builder
       ''dummy/1.0.0'' ''dummy_data'' True =
     (unpatched, [OpensFilesWarning ''iwslt2017'' None (Some ''dummy_data/splits.txt'')],
      Inl (UnboundLocalError ''generator_splits''))"
  using get_expected_files_after_except [of unpatched Map.empty probing_builder example_command
      None "''1.0.0''" "''dummy/1.0.0''" "''dummy_data''" "Some ''dummy_data/splits.txt''" True]
  by (simp add: builtins_defs example_command_def probing_builder_def)

section \<open>Properties of \<open>auto_zip\<close>\<close>






end
